theory Spec2Isabelle
  imports Complex_Main "HOL-Library.Word"
begin

section \<open>Values that arrive over the protocol\<close>

text \<open>
  The argument bag of a tool call has the TypeScript type \<open>unknown\<close>. It is decoded from
  JSON text, so it is a JSON value, or \<open>undefined\<close> when the request carries no
  \<open>arguments\<close>. A JavaScript number is a double: a finite value (a rational here, with
  \<open>-0\<close> and \<open>0\<close> both \<open>Num 0\<close>), an infinity, or NaN.
\<close>

datatype jsnum = Num rat | Infinity | NegInfinity | NaN

datatype json =
    JNull
  | JBool bool
  | JNum jsnum
  | JStr string
  | JArr "json list"
  | JObj "(string \<times> json) list"

text \<open>\<open>None\<close> is JavaScript's \<open>undefined\<close>; it is also what reading a missing property gives.\<close>

type_synonym jsval = "json option"

text \<open>Truthiness, as \<open>!x\<close>, \<open>x || y\<close> and \<open>if (x)\<close> test it.\<close>

fun truthy_num :: "jsnum \<Rightarrow> bool" where
  "truthy_num (Num r) = (r \<noteq> 0)"
| "truthy_num Infinity = True"
| "truthy_num NegInfinity = True"
| "truthy_num NaN = False"

fun truthy :: "jsval \<Rightarrow> bool" where
  "truthy None = False"
| "truthy (Some JNull) = False"
| "truthy (Some (JBool b)) = b"
| "truthy (Some (JNum n)) = truthy_num n"
| "truthy (Some (JStr s)) = (s \<noteq> [])"
| "truthy (Some (JArr xs)) = True"
| "truthy (Some (JObj kvs)) = True"

fun typeof :: "jsval \<Rightarrow> string" where
  "typeof None = ''undefined''"
| "typeof (Some JNull) = ''object''"
| "typeof (Some (JBool b)) = ''boolean''"
| "typeof (Some (JNum n)) = ''number''"
| "typeof (Some (JStr s)) = ''string''"
| "typeof (Some (JArr xs)) = ''object''"
| "typeof (Some (JObj kvs)) = ''object''"

text \<open>
  \<open>getProp a k\<close> is the property read \<open>a.k\<close> for the six names the guards read. The list of a
  \<open>JObj\<close> holds the object's own properties. An array has none of these names (its own
  properties are its indices and \<open>length\<close>).
\<close>

fun getProp :: "jsval \<Rightarrow> string \<Rightarrow> jsval" where
  "getProp (Some (JObj kvs)) k = map_of kvs k"
| "getProp _ k = None"

section \<open>Argument shapes and results\<close>

record DownloadImageArgs =
  url :: string
  outputPath :: string

record OptimizeImageArgs =
  inputPath :: string
  outputPath :: string
  width :: "jsnum option"
  height :: "jsnum option"
  quality :: "jsnum option"

record TextContent =
  type :: string
  "text" :: string

record ToolResult =
  content :: "TextContent list"
  isError :: "bool option"

datatype ErrorCode = InvalidParams | MethodNotFound

text \<open>\<open>McpError c m\<close> is \<open>new McpError(c, m)\<close>: the protocol-level error a request handler throws.\<close>

datatype McpError = McpError ErrorCode string

text \<open>
  What a \<open>catch\<close> clause can receive: an instance of \<open>Error\<close> with its message, or any
  other thrown value.
\<close>

datatype thrown = Error string | NonError

text \<open>\<open>error instanceof Error ? error.message : 'Unknown error occurred'\<close>\<close>

fun errorMessage :: "thrown \<Rightarrow> string" where
  "errorMessage (Error m) = m"
| "errorMessage NonError = ''Unknown error occurred''"

section \<open>The type guards\<close>

definition isDownloadImageArgs :: "jsval \<Rightarrow> bool" where
  "isDownloadImageArgs args =
     (if \<not> truthy args \<or> typeof args \<noteq> ''object'' then False
      else typeof (getProp args ''url'') = ''string'' \<and>
           typeof (getProp args ''outputPath'') = ''string'')"

definition isOptimizeImageArgs :: "jsval \<Rightarrow> bool" where
  "isOptimizeImageArgs args =
     (if \<not> truthy args \<or> typeof args \<noteq> ''object'' then False
      else typeof (getProp args ''inputPath'') = ''string'' \<and>
           typeof (getProp args ''outputPath'') = ''string'' \<and>
           (getProp args ''width'' = None \<or> typeof (getProp args ''width'') = ''number'') \<and>
           (getProp args ''height'' = None \<or> typeof (getProp args ''height'') = ''number'') \<and>
           (getProp args ''quality'' = None \<or> typeof (getProp args ''quality'') = ''number''))"

text \<open>
  After a guard has passed, TypeScript lets the handler read the bag as the guarded
  interface. The readers below are those field reads; their last equations are never
  reached for a bag that passed its guard.
\<close>

fun str_field :: "jsval \<Rightarrow> string" where
  "str_field (Some (JStr s)) = s"
| "str_field _ = []"

fun num_field :: "jsval \<Rightarrow> jsnum option" where
  "num_field (Some (JNum n)) = Some n"
| "num_field _ = None"

definition asDownloadImageArgs :: "jsval \<Rightarrow> DownloadImageArgs" where
  "asDownloadImageArgs args =
     \<lparr>DownloadImageArgs.url = str_field (getProp args ''url''),
      outputPath = str_field (getProp args ''outputPath'')\<rparr>"

definition asOptimizeImageArgs :: "jsval \<Rightarrow> OptimizeImageArgs" where
  "asOptimizeImageArgs args =
     \<lparr>inputPath = str_field (getProp args ''inputPath''),
      outputPath = str_field (getProp args ''outputPath''),
      width = num_field (getProp args ''width''),
      height = num_field (getProp args ''height''),
      quality = num_field (getProp args ''quality'')\<rparr>"

section \<open>The collaborators\<close>

text \<open>
  The handlers call four libraries: \<open>path\<close>, \<open>fs-extra\<close>, \<open>axios\<close> and \<open>sharp\<close>. None is
  code of this repository, so each call is a parameter. A call that touches the
  filesystem or the network takes the world \<open>'w\<close> and returns the world it leaves
  together with its outcome: \<open>Inl\<close> what it threw (or rejected with), \<open>Inr\<close> what it
  returned. The calls that only configure a \<open>sharp\<close> pipeline \<open>'t\<close> return the configured
  pipeline or throw.
\<close>

type_synonym bytes = "8 word list"

record AxiosRequestConfig =
  "method" :: string
  url :: string
  responseType :: string
  headers :: "(string \<times> string) list"
  timeout :: nat

record ResizeOptions =
  fit :: string
  withoutEnlargement :: bool

record ('w, 't) env =
  dirname :: "string \<Rightarrow> string"
  ensureDir :: "string \<Rightarrow> 'w \<Rightarrow> (thrown + unit) \<times> 'w"
  axios :: "AxiosRequestConfig \<Rightarrow> 'w \<Rightarrow> (thrown + bytes) \<times> 'w"
  writeFile :: "string \<Rightarrow> bytes \<Rightarrow> 'w \<Rightarrow> (thrown + unit) \<times> 'w"
  sharp :: "string \<Rightarrow> thrown + 't"
  resize :: "jsnum option \<Rightarrow> jsnum option \<Rightarrow> ResizeOptions \<Rightarrow> 't \<Rightarrow> thrown + 't"
  jpeg :: "jsnum \<Rightarrow> 't \<Rightarrow> thrown + 't"
  webp :: "jsnum \<Rightarrow> 't \<Rightarrow> thrown + 't"
  toFile :: "'t \<Rightarrow> string \<Rightarrow> 'w \<Rightarrow> (thrown + unit) \<times> 'w"

text \<open>
  \<open>jpeg env q t\<close> is \<open>t.jpeg({ quality: q })\<close> and \<open>webp env q t\<close> is \<open>t.webp({ quality: q })\<close>.
  The state a handler runs in is the world and the lines written with \<open>console.error\<close>.
\<close>

record 'w state =
  world :: 'w
  stderr :: "string list"

section \<open>The download handler\<close>

definition userAgent :: string where
  "userAgent = ''Mozilla/5.0 (Windows NT 10.0; Win64; x64) AppleWebKit/537.36 (KHTML, like Gecko) Chrome/91.0.4472.124 Safari/537.36''"

definition downloadRequest :: "DownloadImageArgs \<Rightarrow> AxiosRequestConfig" where
  "downloadRequest args =
     \<lparr>method = ''GET'',
      url = DownloadImageArgs.url args,
      responseType = ''arraybuffer'',
      headers = [(''User-Agent'', userAgent)],
      timeout = 30000\<rparr>"

text \<open>The body of the \<open>try\<close> block: the first call that throws ends it.\<close>

definition download_try ::
  "('w, 't) env \<Rightarrow> DownloadImageArgs \<Rightarrow> 'w \<Rightarrow> (thrown + ToolResult) \<times> 'w" where
  "download_try env args w0 =
     (case ensureDir env (dirname env (DownloadImageArgs.outputPath args)) w0 of
        (Inl e, w1) \<Rightarrow> (Inl e, w1)
      | (Inr u, w1) \<Rightarrow>
          (case axios env (downloadRequest args) w1 of
             (Inl e, w2) \<Rightarrow> (Inl e, w2)
           | (Inr data, w2) \<Rightarrow>
               (case writeFile env (DownloadImageArgs.outputPath args) data w2 of
                  (Inl e, w3) \<Rightarrow> (Inl e, w3)
                | (Inr u', w3) \<Rightarrow>
                    (Inr \<lparr>content =
                            [\<lparr>type = ''text'',
                              text = ''Successfully downloaded image to '' @
                                     DownloadImageArgs.outputPath args\<rparr>],
                          isError = None\<rparr>,
                     w3))))"

definition handleDownloadImage ::
  "('w, 't) env \<Rightarrow> DownloadImageArgs \<Rightarrow> 'w state \<Rightarrow> ToolResult \<times> 'w state" where
  "handleDownloadImage env args s =
     (case download_try env args (world s) of
        (Inr r, w) \<Rightarrow> (r, s\<lparr>world := w\<rparr>)
      | (Inl error, w) \<Rightarrow>
          (\<lparr>content =
              [\<lparr>type = ''text'',
                text = ''Failed to download image: '' @ errorMessage error\<rparr>],
            isError = Some True\<rparr>,
           \<lparr>world = w,
            stderr = stderr s @ [''Download error: '' @ errorMessage error]\<rparr>))"

section \<open>The optimize handler\<close>

fun truthy_opt :: "jsnum option \<Rightarrow> bool" where
  "truthy_opt None = False"
| "truthy_opt (Some n) = truthy_num n"

text \<open>\<open>// Resize if dimensions specified\<close>: the test is \<open>args.width || args.height\<close>.\<close>

definition resizeIfSpecified ::
  "('w, 't) env \<Rightarrow> OptimizeImageArgs \<Rightarrow> 't \<Rightarrow> thrown + 't" where
  "resizeIfSpecified env args transformer =
     (if truthy_opt (width args) \<or> truthy_opt (height args)
      then resize env (width args) (height args)
             \<lparr>fit = ''inside'', withoutEnlargement = True\<rparr> transformer
      else Inr transformer)"

text \<open>\<open>// Set quality if specified\<close>: the test is \<open>args.quality\<close>.\<close>

definition setQualityIfSpecified ::
  "('w, 't) env \<Rightarrow> OptimizeImageArgs \<Rightarrow> 't \<Rightarrow> thrown + 't" where
  "setQualityIfSpecified env args transformer =
     (case quality args of
        None \<Rightarrow> Inr transformer
      | Some q \<Rightarrow>
          (if truthy_num q
           then (case jpeg env q transformer of
                   Inl e \<Rightarrow> Inl e
                 | Inr t \<Rightarrow> webp env q t)
           else Inr transformer))"

text \<open>The pipeline the handler hands to \<open>toFile\<close>, from \<open>sharp(args.inputPath)\<close> on.\<close>

definition optimize_build ::
  "('w, 't) env \<Rightarrow> OptimizeImageArgs \<Rightarrow> thrown + 't" where
  "optimize_build env args =
     (case sharp env (inputPath args) of
        Inl e \<Rightarrow> Inl e
      | Inr t0 \<Rightarrow>
          (case resizeIfSpecified env args t0 of
             Inl e \<Rightarrow> Inl e
           | Inr t1 \<Rightarrow> setQualityIfSpecified env args t1))"

definition optimize_try ::
  "('w, 't) env \<Rightarrow> OptimizeImageArgs \<Rightarrow> 'w \<Rightarrow> (thrown + ToolResult) \<times> 'w" where
  "optimize_try env args w0 =
     (case ensureDir env (dirname env (outputPath args)) w0 of
        (Inl e, w1) \<Rightarrow> (Inl e, w1)
      | (Inr u, w1) \<Rightarrow>
          (case optimize_build env args of
             Inl e \<Rightarrow> (Inl e, w1)
           | Inr transformer \<Rightarrow>
               (case toFile env transformer (outputPath args) w1 of
                  (Inl e, w2) \<Rightarrow> (Inl e, w2)
                | (Inr u', w2) \<Rightarrow>
                    (Inr \<lparr>content =
                            [\<lparr>type = ''text'',
                              text = ''Successfully optimized image to '' @
                                     outputPath args\<rparr>],
                          isError = None\<rparr>,
                     w2))))"

definition handleOptimizeImage ::
  "('w, 't) env \<Rightarrow> OptimizeImageArgs \<Rightarrow> 'w state \<Rightarrow> ToolResult \<times> 'w state" where
  "handleOptimizeImage env args s =
     (case optimize_try env args (world s) of
        (Inr r, w) \<Rightarrow> (r, s\<lparr>world := w\<rparr>)
      | (Inl error, w) \<Rightarrow>
          (\<lparr>content =
              [\<lparr>type = ''text'',
                text = ''Failed to optimize image: '' @ errorMessage error\<rparr>],
            isError = Some True\<rparr>,
           \<lparr>world = w,
            stderr = stderr s @ [''Optimization error: '' @ errorMessage error]\<rparr>))"

section \<open>The request handlers\<close>

text \<open>The object the listing handler returns, as the JSON value it is sent as.\<close>

definition strProp :: "string \<Rightarrow> json" where
  "strProp d = JObj [(''type'', JStr ''string''), (''description'', JStr d)]"

definition numProp :: "string \<Rightarrow> json" where
  "numProp d = JObj [(''type'', JStr ''number''), (''description'', JStr d)]"

definition downloadImageTool :: json where
  "downloadImageTool =
     JObj [(''name'', JStr ''download_image''),
           (''description'', JStr ''Download an image from a URL to a specified path''),
           (''inputSchema'',
            JObj [(''type'', JStr ''object''),
                  (''properties'',
                   JObj [(''url'', strProp ''URL of the image to download''),
                         (''outputPath'', strProp ''Path where to save the image'')]),
                  (''required'', JArr [JStr ''url'', JStr ''outputPath''])])]"

definition optimizeImageTool :: json where
  "optimizeImageTool =
     JObj [(''name'', JStr ''optimize_image''),
           (''description'', JStr ''Create an optimized version of an image''),
           (''inputSchema'',
            JObj [(''type'', JStr ''object''),
                  (''properties'',
                   JObj [(''inputPath'', strProp ''Path to the input image''),
                         (''outputPath'', strProp ''Path where to save the optimized image''),
                         (''width'',
                          numProp ''Target width (maintains aspect ratio if only width is specified)''),
                         (''height'',
                          numProp ''Target height (maintains aspect ratio if only height is specified)''),
                         (''quality'',
                          JObj [(''type'', JStr ''number''),
                                (''description'', JStr ''JPEG/WebP quality (1-100)''),
                                (''minimum'', JNum (Num 1)),
                                (''maximum'', JNum (Num 100))])]),
                  (''required'', JArr [JStr ''inputPath'', JStr ''outputPath''])])]"

text \<open>\<open>async () => ({ tools: [...] })\<close>: the request is not read and nothing else is done.\<close>

definition ListToolsHandler :: "'r \<Rightarrow> 'w state \<Rightarrow> json \<times> 'w state" where
  "ListToolsHandler request s =
     (JObj [(''tools'', JArr [downloadImageTool, optimizeImageTool])], s)"

record CallToolRequest =
  name :: string
  arguments :: jsval

text \<open>
  The \<open>switch\<close> on \<open>request.params.name\<close>. \<open>Inl\<close> is the thrown \<open>McpError\<close>, \<open>Inr\<close> the
  tool result the handler returned.
\<close>

definition CallToolHandler ::
  "('w, 't) env \<Rightarrow> CallToolRequest \<Rightarrow> 'w state \<Rightarrow> (McpError + ToolResult) \<times> 'w state" where
  "CallToolHandler env request s =
     (if name request = ''download_image'' then
        (if \<not> isDownloadImageArgs (arguments request)
         then (Inl (McpError InvalidParams ''Invalid arguments for download_image''), s)
         else (case handleDownloadImage env (asDownloadImageArgs (arguments request)) s of
                 (r, s') \<Rightarrow> (Inr r, s')))
      else if name request = ''optimize_image'' then
        (if \<not> isOptimizeImageArgs (arguments request)
         then (Inl (McpError InvalidParams ''Invalid arguments for optimize_image''), s)
         else (case handleOptimizeImage env (asOptimizeImageArgs (arguments request)) s of
                 (r, s') \<Rightarrow> (Inr r, s')))
      else (Inl (McpError MethodNotFound (''Unknown tool: '' @ name request)), s))"

section \<open>The image library\<close>

text \<open>
  Modelled from the spec: the image library \<open>sharp\<close>, which the optimize handler calls and
  which is not among the sources. The specification describes it as a collaborator that
  decodes raster input, resizes to fit without enlargement, and encodes with a quality
  per format (JPEG, WebP). An image is modelled by its dimensions in pixels, which is all
  the specification states about the result of a resize.
\<close>

record image =
  imageWidth :: nat
  imageHeight :: nat

text \<open>
  Modelled from the spec: what a \<open>sharp\<close> pipeline has been asked to do before it is run.
  The input is opened when the pipeline runs (an unreadable input is a failure of the
  run), so the pipeline holds the path. Each encoder call keeps its quality and makes
  its format the output format: the specification has the format selected by the output
  encoder configuration, and by the extension of the output path otherwise.
\<close>

record pipeline =
  inputFile :: string
  resizeTo :: "(nat option \<times> nat option \<times> ResizeOptions) option"
  jpegQuality :: "jsnum option"
  webpQuality :: "jsnum option"
  formatOut :: "string option"

text \<open>
  Modelled from the spec: the parts of \<open>sharp\<close> about which the specification says nothing
  more than that they exist are parameters: decoding the input for a given output path,
  encoding and writing an image in a format with a quality, the format an output path's
  extension stands for, the error for a refused dimension, the check of a quality value,
  and resizing with options other than the two the handler passes.
\<close>

record 'w codec =
  openInput :: "string \<Rightarrow> string \<Rightarrow> 'w \<Rightarrow> thrown + image"
  encode :: "string \<Rightarrow> image \<Rightarrow> string \<Rightarrow> jsnum option \<Rightarrow> 'w \<Rightarrow> (thrown + unit) \<times> 'w"
  formatOf :: "string \<Rightarrow> string \<Rightarrow> 'w \<Rightarrow> string"
  invalidDimension :: "string \<Rightarrow> jsnum \<Rightarrow> thrown"
  rejectQuality :: "jsnum \<Rightarrow> thrown option"
  resizeOther :: "ResizeOptions \<Rightarrow> nat option \<Rightarrow> nat option \<Rightarrow> image \<Rightarrow> image"

text \<open>
  Modelled from the spec: a dimension of \<open>sharp\<close>'s resize is a positive number of whole
  pixels (the specification's optional positive number); \<open>Inl\<close> is a value that is refused.
\<close>

fun pixels :: "jsnum option \<Rightarrow> jsnum + nat option" where
  "pixels None = Inr None"
| "pixels (Some (Num r)) =
     (if 0 < r \<and> of_int \<lfloor>r\<rfloor> = r then Inr (Some (nat \<lfloor>r\<rfloor>)) else Inl (Num r))"
| "pixels (Some v) = Inl v"

text \<open>
  Modelled from the spec: \<open>sharp\<close>'s resize to fit without enlargement, in the glossary's
  words: scale an image down to fit within given bounds preserving aspect ratio, never
  scale up past original size. \<open>needs n b\<close> is the factor by which a side of \<open>n\<close> pixels
  has to be divided to come within a bound \<open>b\<close>, and 0 where no bound is given.
\<close>

fun needs :: "nat \<Rightarrow> nat option \<Rightarrow> rat" where
  "needs n None = 0"
| "needs n (Some b) = of_nat n / of_nat b"

text \<open>
  Modelled from the spec: the factor \<open>sharp\<close> divides both sides by, never below 1 (no
  enlargement) and at least what each given bound needs (fit inside).
\<close>

definition shrink :: "image \<Rightarrow> nat option \<Rightarrow> nat option \<Rightarrow> rat" where
  "shrink src bw bh = max 1 (max (needs (imageWidth src) bw) (needs (imageHeight src) bh))"

text \<open>
  Modelled from the spec: the image \<open>sharp\<close> makes of an input and a box, both sides
  divided by the one factor (the aspect ratio is kept) and rounded to whole pixels.
\<close>

definition fitInside :: "image \<Rightarrow> nat option \<Rightarrow> nat option \<Rightarrow> image" where
  "fitInside src bw bh =
     \<lparr>imageWidth = nat (round (of_nat (imageWidth src) / shrink src bw bh)),
      imageHeight = nat (round (of_nat (imageHeight src) / shrink src bw bh))\<rparr>"

text \<open>
  Modelled from the spec: the image a \<open>sharp\<close> pipeline makes of its decoded input.
\<close>

definition render :: "'w codec \<Rightarrow> pipeline \<Rightarrow> image \<Rightarrow> image" where
  "render codec t src =
     (case resizeTo t of
        None \<Rightarrow> src
      | Some (bw, bh, opts) \<Rightarrow>
          (if fit opts = ''inside'' \<and> withoutEnlargement opts
           then fitInside src bw bh
           else resizeOther codec opts bw bh src))"

text \<open>
  Modelled from the spec: the format \<open>sharp\<close> writes, the one of the output encoder
  configuration when an encoder was configured and the one inferred from the output
  path otherwise.
\<close>

definition chosenFormat :: "'w codec \<Rightarrow> pipeline \<Rightarrow> string \<Rightarrow> 'w \<Rightarrow> string" where
  "chosenFormat codec t p w =
     (case formatOut t of
        Some f \<Rightarrow> f
      | None \<Rightarrow> formatOf codec (inputFile t) p w)"

text \<open>
  Modelled from the spec: \<open>sharp\<close>'s encoders take a quality for JPEG and for WebP, each
  its own; no other format takes one.
\<close>

definition chosenQuality :: "pipeline \<Rightarrow> string \<Rightarrow> jsnum option" where
  "chosenQuality t f =
     (if f = ''jpeg'' then jpegQuality t
      else if f = ''webp'' then webpQuality t
      else None)"

text \<open>
  Modelled from the spec: the calls of \<open>sharp\<close> the optimize handler makes, over the
  parameters above. The other collaborators are those of \<open>base\<close>.
\<close>

definition imageLibrary :: "'w codec \<Rightarrow> ('w, 'x) env \<Rightarrow> ('w, pipeline) env" where
  "imageLibrary codec base =
     \<lparr>dirname = dirname base,
      ensureDir = ensureDir base,
      axios = axios base,
      writeFile = writeFile base,
      sharp = (\<lambda>p. Inr \<lparr>inputFile = p, resizeTo = None, jpegQuality = None,
                         webpQuality = None, formatOut = None\<rparr>),
      resize = (\<lambda>w h opts t.
        (case pixels w of
           Inl v \<Rightarrow> Inl (invalidDimension codec ''width'' v)
         | Inr bw \<Rightarrow>
             (case pixels h of
                Inl v \<Rightarrow> Inl (invalidDimension codec ''height'' v)
              | Inr bh \<Rightarrow> Inr (t\<lparr>resizeTo := Some (bw, bh, opts)\<rparr>)))),
      jpeg = (\<lambda>q t.
        (case rejectQuality codec q of
           Some e \<Rightarrow> Inl e
         | None \<Rightarrow> Inr (t\<lparr>jpegQuality := Some q, formatOut := Some ''jpeg''\<rparr>))),
      webp = (\<lambda>q t.
        (case rejectQuality codec q of
           Some e \<Rightarrow> Inl e
         | None \<Rightarrow> Inr (t\<lparr>webpQuality := Some q, formatOut := Some ''webp''\<rparr>))),
      toFile = (\<lambda>t p w.
        (case openInput codec (inputFile t) p w of
           Inl e \<Rightarrow> (Inl e, w)
         | Inr src \<Rightarrow>
             encode codec p (render codec t src) (chosenFormat codec t p w)
               (chosenQuality t (chosenFormat codec t p w)) w))\<rparr>"

section \<open>A recording environment\<close>

text \<open>
  For running the handlers on concrete requests: collaborators that do nothing but
  record each call, in order, and throw when the policy \<open>fails\<close> says so (\<open>never\<close>: no
  call throws; \<open>flaky\<close>: every GET times out and every \<open>toFile\<close> finds no input).
  The world is the list of calls made so far; a pipeline is the list of calls that
  configured it. \<open>posix_dirname\<close> is Node's \<open>path.posix.dirname\<close>.
\<close>

datatype call =
    EnsureDir string
  | HttpGet AxiosRequestConfig
  | WriteFile string bytes
  | Sharp string
  | Resize "jsnum option" "jsnum option" ResizeOptions
  | Jpeg jsnum
  | Webp jsnum
  | ToFile "call list" string
  | Encode string image string "jsnum option"

definition posix_dirname :: "string \<Rightarrow> string" where
  "posix_dirname p =
     (case p of
        [] \<Rightarrow> ''.''
      | c # cs \<Rightarrow>
          (case dropWhile (\<lambda>x. x \<noteq> CHR ''/'') (dropWhile (\<lambda>x. x = CHR ''/'') (rev cs)) of
             [] \<Rightarrow> (if c = CHR ''/'' then ''/'' else ''.'')
           | s # r \<Rightarrow> (if c = CHR ''/'' \<and> r = [] then ''//'' else c # rev r)))"

fun outcome :: "thrown option \<Rightarrow> 'a \<Rightarrow> thrown + 'a" where
  "outcome None x = Inr x"
| "outcome (Some e) x = Inl e"

definition payload :: bytes where
  "payload = [137, 80, 78, 71]"

definition rec_env :: "(call \<Rightarrow> thrown option) \<Rightarrow> (call list, call list) env" where
  "rec_env fails =
     \<lparr>dirname = posix_dirname,
      ensureDir = (\<lambda>d w. (outcome (fails (EnsureDir d)) (), w @ [EnsureDir d])),
      axios = (\<lambda>c w. (outcome (fails (HttpGet c)) payload, w @ [HttpGet c])),
      writeFile = (\<lambda>p b w. (outcome (fails (WriteFile p b)) (), w @ [WriteFile p b])),
      sharp = (\<lambda>p. outcome (fails (Sharp p)) [Sharp p]),
      resize = (\<lambda>w h opts t. outcome (fails (Resize w h opts)) (t @ [Resize w h opts])),
      jpeg = (\<lambda>q t. outcome (fails (Jpeg q)) (t @ [Jpeg q])),
      webp = (\<lambda>q t. outcome (fails (Webp q)) (t @ [Webp q])),
      toFile = (\<lambda>t p w. (outcome (fails (ToFile t p)) (), w @ [ToFile t p]))\<rparr>"

fun flaky :: "call \<Rightarrow> thrown option" where
  "flaky (HttpGet c) = Some (Error ''timeout of 30000ms exceeded'')"
| "flaky (ToFile t p) = Some (Error ''Input file is missing'')"
| "flaky c = None"

definition never :: "call \<Rightarrow> thrown option" where
  "never c = None"

definition start :: "call list state" where
  "start = \<lparr>world = [], stderr = []\<rparr>"

text \<open>
  For running the image library on concrete requests: every input decodes to an image of
  400 by 200 pixels, every quality is accepted, an output path stands for the format its
  extension names, and encoding records the image written.
\<close>

definition extension :: "string \<Rightarrow> string" where
  "extension p = rev (takeWhile (\<lambda>c. c \<noteq> CHR ''.'') (rev p))"

definition rec_codec :: "call list codec" where
  "rec_codec =
     \<lparr>openInput = (\<lambda>i p w. Inr \<lparr>imageWidth = 400, imageHeight = 200\<rparr>),
      encode = (\<lambda>p img f q w. (Inr (), w @ [Encode p img f q])),
      formatOf = (\<lambda>i p w. if extension p = ''jpg'' then ''jpeg'' else extension p),
      invalidDimension = (\<lambda>n v. Error (''Expected positive integer for '' @ n)),
      rejectQuality = (\<lambda>q. None),
      resizeOther = (\<lambda>opts bw bh src. src)\<rparr>"

section \<open>The argument shapes in the specification's words\<close>

text \<open>
  The specification's predicate: the bag is a non-null object, every required field is
  present and of string type, every optional field is absent or of number type.
\<close>

fun nonNullObject :: "jsval \<Rightarrow> bool" where
  "nonNullObject (Some (JObj kvs)) = True"
| "nonNullObject (Some (JArr xs)) = True"
| "nonNullObject _ = False"

fun presentString :: "jsval \<Rightarrow> bool" where
  "presentString (Some (JStr s)) = True"
| "presentString _ = False"

fun absentOrNumber :: "jsval \<Rightarrow> bool" where
  "absentOrNumber None = True"
| "absentOrNumber (Some (JNum n)) = True"
| "absentOrNumber _ = False"

definition spec_download_shape :: "jsval \<Rightarrow> bool" where
  "spec_download_shape args =
     (nonNullObject args \<and>
      presentString (getProp args ''url'') \<and>
      presentString (getProp args ''outputPath''))"

definition spec_optimize_shape :: "jsval \<Rightarrow> bool" where
  "spec_optimize_shape args =
     (nonNullObject args \<and>
      presentString (getProp args ''inputPath'') \<and>
      presentString (getProp args ''outputPath'') \<and>
      absentOrNumber (getProp args ''width'') \<and>
      absentOrNumber (getProp args ''height'') \<and>
      absentOrNumber (getProp args ''quality''))"

section \<open>The guards and the specification's shapes agree\<close>

lemma typeof_string_iff: "typeof v = ''string'' \<longleftrightarrow> presentString v"
  by (cases v rule: typeof.cases) simp_all

lemma typeof_number_iff: "v = None \<or> typeof v = ''number'' \<longleftrightarrow> absentOrNumber v"
  by (cases v rule: typeof.cases) simp_all

lemma object_iff: "(\<not> truthy v \<or> typeof v \<noteq> ''object'') \<longleftrightarrow> \<not> nonNullObject v"
  by (cases v rule: typeof.cases) simp_all

lemma isDownloadImageArgs_spec: "isDownloadImageArgs args = spec_download_shape args"
  unfolding isDownloadImageArgs_def spec_download_shape_def
  using object_iff [of args] by (auto simp: typeof_string_iff)

lemma isOptimizeImageArgs_spec: "isOptimizeImageArgs args = spec_optimize_shape args"
  unfolding isOptimizeImageArgs_def spec_optimize_shape_def
  using object_iff [of args] by (auto simp: typeof_string_iff typeof_number_iff)

section \<open>What the two try blocks do\<close>


lemma download_try_Inr_iff:
  "download_try env a w = (Inr r, w') \<longleftrightarrow>
     (\<exists>w1 d w2.
        ensureDir env (dirname env (DownloadImageArgs.outputPath a)) w = (Inr (), w1) \<and>
        axios env (downloadRequest a) w1 = (Inr d, w2) \<and>
        writeFile env (DownloadImageArgs.outputPath a) d w2 = (Inr (), w') \<and>
        r = \<lparr>content = [\<lparr>type = ''text'',
                           text = ''Successfully downloaded image to '' @
                                  DownloadImageArgs.outputPath a\<rparr>],
              isError = None\<rparr>)"
  unfolding download_try_def by (auto split: prod.splits sum.splits)


lemma optimize_try_Inr_iff:
  "optimize_try env a w = (Inr r, w') \<longleftrightarrow>
     (\<exists>w1 t.
        ensureDir env (dirname env (outputPath a)) w = (Inr (), w1) \<and>
        optimize_build env a = Inr t \<and>
        toFile env t (outputPath a) w1 = (Inr (), w') \<and>
        r = \<lparr>content = [\<lparr>type = ''text'',
                           text = ''Successfully optimized image to '' @ outputPath a\<rparr>],
              isError = None\<rparr>)"
  unfolding optimize_try_def by (auto split: prod.splits sum.splits)

lemma optimize_build_Inl_iff:
  "optimize_build env a = Inl e \<longleftrightarrow>
     sharp env (inputPath a) = Inl e \<or>
     (\<exists>t0. sharp env (inputPath a) = Inr t0 \<and>
        (resizeIfSpecified env a t0 = Inl e \<or>
         (\<exists>t1. resizeIfSpecified env a t0 = Inr t1 \<and>
            setQualityIfSpecified env a t1 = Inl e)))"
  unfolding optimize_build_def by (auto split: sum.splits)

lemma optimize_build_Inr_iff:
  "optimize_build env a = Inr t \<longleftrightarrow>
     (\<exists>t0 t1. sharp env (inputPath a) = Inr t0 \<and>
        resizeIfSpecified env a t0 = Inr t1 \<and>
        setQualityIfSpecified env a t1 = Inr t)"
  unfolding optimize_build_def by (auto split: sum.splits)


lemma handleDownloadImage_returned:
  "download_try env a (world s) = (Inr r, w') \<Longrightarrow>
   handleDownloadImage env a s = (r, s\<lparr>world := w'\<rparr>)"
  by (simp add: handleDownloadImage_def)


lemma handleOptimizeImage_returned:
  "optimize_try env a (world s) = (Inr r, w') \<Longrightarrow>
   handleOptimizeImage env a s = (r, s\<lparr>world := w'\<rparr>)"
  by (simp add: handleOptimizeImage_def)

lemma download_try_success_result:
  "download_try env a w = (Inr r, w') \<Longrightarrow> isError r = None"
  by (auto simp: download_try_Inr_iff)

lemma optimize_try_success_result:
  "optimize_try env a w = (Inr r, w') \<Longrightarrow> isError r = None"
  by (auto simp: optimize_try_Inr_iff)

lemma handleDownloadImage_success_iff:
  "handleDownloadImage env a s = (r, s') \<and> isError r \<noteq> Some True \<longleftrightarrow>
   download_try env a (world s) = (Inr r, world s') \<and> s' = s\<lparr>world := world s'\<rparr>"
proof (cases "download_try env a (world s)")
  case (Pair x w)
  show ?thesis
  proof (cases x)
    case (Inl e)
    with Pair show ?thesis by (auto simp: handleDownloadImage_def)
  next
    case (Inr r0)
    with Pair download_try_success_result [of env a "world s" r0 w]
    show ?thesis by (auto simp: handleDownloadImage_def)
  qed
qed

lemma handleOptimizeImage_success_iff:
  "handleOptimizeImage env a s = (r, s') \<and> isError r \<noteq> Some True \<longleftrightarrow>
   optimize_try env a (world s) = (Inr r, world s') \<and> s' = s\<lparr>world := world s'\<rparr>"
proof (cases "optimize_try env a (world s)")
  case (Pair x w)
  show ?thesis
  proof (cases x)
    case (Inl e)
    with Pair show ?thesis by (auto simp: handleOptimizeImage_def)
  next
    case (Inr r0)
    with Pair optimize_try_success_result [of env a "world s" r0 w]
    show ?thesis by (auto simp: handleOptimizeImage_def)
  qed
qed


section \<open>The two conditional steps of the optimize pipeline\<close>

lemma resizeIfSpecified_quality [simp]:
  "resizeIfSpecified env (a\<lparr>quality := x\<rparr>) t = resizeIfSpecified env a t"
  by (simp add: resizeIfSpecified_def)

lemma setQualityIfSpecified_none [simp]:
  "setQualityIfSpecified env (a\<lparr>quality := None\<rparr>) t = Inr t"
  by (simp add: setQualityIfSpecified_def)

lemma optimize_build_without_quality:
  "optimize_build env a =
     (case optimize_build env (a\<lparr>quality := None\<rparr>) of
        Inl e \<Rightarrow> Inl e
      | Inr t1 \<Rightarrow> setQualityIfSpecified env a t1)"
  by (simp add: optimize_build_def split: sum.splits)

lemma setQuality_truthy:
  "quality a = Some q \<Longrightarrow> truthy_num q \<Longrightarrow>
   setQualityIfSpecified env a t = (case jpeg env q t of Inl e \<Rightarrow> Inl e | Inr t' \<Rightarrow> webp env q t')"
  by (simp add: setQualityIfSpecified_def)


lemma optimize_build_falsy_dims:
  "\<not> truthy_opt w \<Longrightarrow> \<not> truthy_opt h \<Longrightarrow>
   optimize_build env (a\<lparr>width := w, height := h\<rparr>) =
   optimize_build env (a\<lparr>width := None, height := None\<rparr>)"
  by (simp add: optimize_build_def resizeIfSpecified_def setQualityIfSpecified_def
      cong: sum.case_cong)

lemma optimize_build_falsy_quality:
  "\<not> truthy_opt q \<Longrightarrow>
   optimize_build env (a\<lparr>quality := q\<rparr>) = optimize_build env (a\<lparr>quality := None\<rparr>)"
  by (cases q) (simp_all add: optimize_build_def setQualityIfSpecified_def cong: sum.case_cong)

section \<open>The geometry of the resize to fit\<close>

lemma shrink_ge_1: "1 \<le> shrink src bw bh"
  by (simp add: shrink_def)

lemma shrink_pos: "0 < shrink src bw bh"
  using shrink_ge_1 [of src bw bh] by linarith

lemma shrink_ge_width: "of_nat (imageWidth src) / of_nat b \<le> shrink src (Some b) bh"
  by (simp add: shrink_def max.coboundedI2)

lemma shrink_ge_height: "of_nat (imageHeight src) / of_nat b \<le> shrink src bw (Some b)"
  by (simp add: shrink_def max.coboundedI2)

lemma scaled_le_bound:
  fixes s :: rat
  assumes "0 < s" and "0 < b" and "of_nat n / of_nat b \<le> s"
  shows "nat (round (of_nat n / s)) \<le> b"
proof -
  from assms have "of_nat n \<le> s * of_nat b"
    by (simp add: pos_divide_le_eq)
  with \<open>0 < s\<close> have "of_nat n / s \<le> of_nat b"
    by (simp add: pos_divide_le_eq mult.commute)
  then have "round (of_nat n / s) \<le> round (of_nat b :: rat)"
    by (rule round_mono)
  then show ?thesis by simp
qed

lemma scaled_le_self:
  fixes s :: rat
  assumes "1 \<le> s"
  shows "nat (round (of_nat n / s)) \<le> n"
proof -
  have "(0::rat) \<le> of_nat n" by simp
  from mult_left_mono [OF assms this] have "of_nat n \<le> of_nat n * s" by simp
  with assms have "of_nat n / s \<le> of_nat n"
    by (simp add: divide_le_eq)
  then have "round (of_nat n / s) \<le> round (of_nat n :: rat)"
    by (rule round_mono)
  then show ?thesis by simp
qed

lemma scaled_nonneg:
  fixes s :: rat
  assumes "0 < s"
  shows "0 \<le> round (of_nat n / s)"
proof -
  from assms have "(0::rat) \<le> of_nat n / s" by simp
  then have "round (0::rat) \<le> round (of_nat n / s)" by (rule round_mono)
  then show ?thesis by simp
qed

lemma scaled_aspect:
  fixes s :: rat
  assumes "0 < s"
  shows "2 * \<bar>int (nat (round (of_nat W / s))) * int H - int (nat (round (of_nat H / s))) * int W\<bar>
         \<le> int W + int H"
proof -
  let ?x = "of_nat W / s" and ?y = "of_nat H / s"
  let ?w = "round ?x" and ?h = "round ?y"
  have wn: "int (nat ?w) = ?w" using scaled_nonneg [OF assms, of W] by simp
  have hn: "int (nat ?h) = ?h" using scaled_nonneg [OF assms, of H] by simp
  have ew: "\<bar>of_int ?w - ?x\<bar> \<le> 1 / 2" by (rule of_int_round_abs_le)
  have eh: "\<bar>of_int ?h - ?y\<bar> \<le> 1 / 2" by (rule of_int_round_abs_le)
  have cross: "?x * of_nat H = ?y * of_nat W" by simp
  have "(of_int (?w * int H - ?h * int W) :: rat) =
        (of_int ?w - ?x) * of_nat H - (of_int ?h - ?y) * of_nat W"
    using cross by (simp add: algebra_simps)
  also have "\<bar>\<dots>\<bar> \<le> \<bar>(of_int ?w - ?x) * of_nat H\<bar> + \<bar>(of_int ?h - ?y) * of_nat W\<bar>"
    by (rule abs_triangle_ineq4)
  also have "\<dots> = \<bar>of_int ?w - ?x\<bar> * of_nat H + \<bar>of_int ?h - ?y\<bar> * of_nat W"
    by (simp add: abs_mult)
  also have "\<dots> \<le> (1 / 2) * of_nat H + (1 / 2) * of_nat W"
    using ew eh by (intro add_mono mult_right_mono) simp_all
  finally have "2 * \<bar>(of_int (?w * int H - ?h * int W) :: rat)\<bar> \<le> of_nat W + of_nat H"
    by simp
  then have "(of_int (2 * \<bar>?w * int H - ?h * int W\<bar>) :: rat) \<le> of_int (int W + int H)"
    by simp
  then have "2 * \<bar>?w * int H - ?h * int W\<bar> \<le> int W + int H"
    by (simp only: of_int_le_iff)
  with wn hn show ?thesis by simp
qed

lemma fitInside_spec_example:
  "fitInside \<lparr>imageWidth = 400, imageHeight = 200\<rparr> (Some 100) None =
     \<lparr>imageWidth = 100, imageHeight = 50\<rparr>"
  by (simp add: fitInside_def shrink_def)

lemma fitInside_no_enlargement:
  "fitInside \<lparr>imageWidth = 400, imageHeight = 200\<rparr> (Some 1000) None =
     \<lparr>imageWidth = 400, imageHeight = 200\<rparr>"
  by (simp add: fitInside_def shrink_def)

lemma pixels_Inr:
  "pixels v = Inr b \<Longrightarrow>
   (v = None \<and> b = None) \<or> (\<exists>k. 0 < k \<and> v = Some (Num (of_nat k)) \<and> b = Some k)"
proof (cases v rule: pixels.cases)
  case 1
  assume "pixels v = Inr b"
  with 1 show ?thesis by simp
next
  case (2 r)
  assume "pixels v = Inr b"
  with 2 have a: "0 < r" "of_int \<lfloor>r\<rfloor> = r" "b = Some (nat \<lfloor>r\<rfloor>)"
    by (auto split: if_splits)
  from a(1) have nn: "0 \<le> \<lfloor>r\<rfloor>" by simp
  then have "(of_nat (nat \<lfloor>r\<rfloor>) :: rat) = of_int \<lfloor>r\<rfloor>" by simp
  with a(2) have e: "(of_nat (nat \<lfloor>r\<rfloor>) :: rat) = r" by (simp only:)
  with a(1) have "(0::rat) < of_nat (nat \<lfloor>r\<rfloor>)" by (simp only:)
  then have "0 < nat \<lfloor>r\<rfloor>" by (simp only: of_nat_0_less_iff)
  with e a(3) 2 show ?thesis by (intro disjI2 exI [of _ "nat \<lfloor>r\<rfloor>"]) (simp only: simp_thms)
qed auto

lemma pixels_pos: "pixels v = Inr (Some b) \<Longrightarrow> 0 < b"
  using pixels_Inr [of v "Some b"] by auto

lemma fitInside_bounds:
  assumes "pixels w = Inr bw" and "pixels h = Inr bh"
  shows "(\<forall>n. w = Some (Num n) \<longrightarrow> of_nat (imageWidth (fitInside src bw bh)) \<le> n) \<and>
         (\<forall>n. h = Some (Num n) \<longrightarrow> of_nat (imageHeight (fitInside src bw bh)) \<le> n) \<and>
         imageWidth (fitInside src bw bh) \<le> imageWidth src \<and>
         imageHeight (fitInside src bw bh) \<le> imageHeight src \<and>
         2 * \<bar>int (imageWidth (fitInside src bw bh)) * int (imageHeight src) -
               int (imageHeight (fitInside src bw bh)) * int (imageWidth src)\<bar>
           \<le> int (imageWidth src) + int (imageHeight src)"
proof (intro conjI allI impI)
  fix n assume "w = Some (Num n)"
  with pixels_Inr [OF assms(1)] obtain k where b: "bw = Some k" "n = of_nat k" "0 < k"
    by auto
  have "imageWidth (fitInside src bw bh) \<le> k"
    unfolding fitInside_def b(1)
    using scaled_le_bound [OF shrink_pos b(3) shrink_ge_width] by simp
  with b(2) show "of_nat (imageWidth (fitInside src bw bh)) \<le> n" by simp
next
  fix n assume "h = Some (Num n)"
  with pixels_Inr [OF assms(2)] obtain k where b: "bh = Some k" "n = of_nat k" "0 < k"
    by auto
  have "imageHeight (fitInside src bw bh) \<le> k"
    unfolding fitInside_def b(1)
    using scaled_le_bound [OF shrink_pos b(3) shrink_ge_height] by simp
  with b(2) show "of_nat (imageHeight (fitInside src bw bh)) \<le> n" by simp
next
  show "imageWidth (fitInside src bw bh) \<le> imageWidth src"
    using scaled_le_self [OF shrink_ge_1] by (simp add: fitInside_def)
  show "imageHeight (fitInside src bw bh) \<le> imageHeight src"
    using scaled_le_self [OF shrink_ge_1] by (simp add: fitInside_def)
  show "2 * \<bar>int (imageWidth (fitInside src bw bh)) * int (imageHeight src) -
               int (imageHeight (fitInside src bw bh)) * int (imageWidth src)\<bar>
           \<le> int (imageWidth src) + int (imageHeight src)"
    using scaled_aspect [OF shrink_pos] by (simp add: fitInside_def)
qed

section \<open>The optimize handler on the image library\<close>

lemma library_resize_Inr:
  "resize (imageLibrary codec base) w h opts t = Inr t' \<Longrightarrow>
   \<exists>bw bh. pixels w = Inr bw \<and> pixels h = Inr bh \<and> t' = t\<lparr>resizeTo := Some (bw, bh, opts)\<rparr>"
  by (auto simp: imageLibrary_def split: sum.splits)

lemma library_quality_Inr:
  "setQualityIfSpecified (imageLibrary codec base) a t = Inr t' \<Longrightarrow>
   resizeTo t' = resizeTo t \<and> inputFile t' = inputFile t \<and>
   (if truthy_opt (quality a)
    then jpegQuality t' = quality a \<and> webpQuality t' = quality a \<and> formatOut t' = Some ''webp''
    else t' = t)"
  by (cases "quality a")
     (auto simp: setQualityIfSpecified_def imageLibrary_def split: if_splits sum.splits option.splits)

lemma library_build_Inr:
  assumes "optimize_build (imageLibrary codec base) a = Inr t"
  shows "inputFile t = inputPath a \<and>
     (if truthy_opt (width a) \<or> truthy_opt (height a)
      then \<exists>bw bh. pixels (width a) = Inr bw \<and> pixels (height a) = Inr bh \<and>
             resizeTo t = Some (bw, bh, \<lparr>fit = ''inside'', withoutEnlargement = True\<rparr>)
      else resizeTo t = None) \<and>
     (if truthy_opt (quality a)
      then jpegQuality t = quality a \<and> webpQuality t = quality a \<and> formatOut t = Some ''webp''
      else jpegQuality t = None \<and> webpQuality t = None \<and> formatOut t = None)"
proof -
  from assms obtain t0 t1 where s: "sharp (imageLibrary codec base) (inputPath a) = Inr t0"
    and r: "resizeIfSpecified (imageLibrary codec base) a t0 = Inr t1"
    and q: "setQualityIfSpecified (imageLibrary codec base) a t1 = Inr t"
    unfolding optimize_build_Inr_iff by blast
  from s have t0: "t0 = \<lparr>inputFile = inputPath a, resizeTo = None, jpegQuality = None,
                         webpQuality = None, formatOut = None\<rparr>"
    by (simp add: imageLibrary_def)
  have t1: "inputFile t1 = inputPath a \<and> jpegQuality t1 = None \<and> webpQuality t1 = None \<and>
     formatOut t1 = None \<and>
     (if truthy_opt (width a) \<or> truthy_opt (height a)
      then \<exists>bw bh. pixels (width a) = Inr bw \<and> pixels (height a) = Inr bh \<and>
             resizeTo t1 = Some (bw, bh, \<lparr>fit = ''inside'', withoutEnlargement = True\<rparr>)
      else resizeTo t1 = None)"
  proof (cases "truthy_opt (width a) \<or> truthy_opt (height a)")
    case True
    with r have "resize (imageLibrary codec base) (width a) (height a)
        \<lparr>fit = ''inside'', withoutEnlargement = True\<rparr> t0 = Inr t1"
      by (simp add: resizeIfSpecified_def)
    from library_resize_Inr [OF this] True t0 show ?thesis by auto
  next
    case False
    with r have "t1 = t0" by (simp add: resizeIfSpecified_def)
    with False t0 show ?thesis by simp
  qed
  from library_quality_Inr [OF q] t1 show ?thesis
    by (auto split: if_splits)
qed

lemma library_toFile:
  "toFile (imageLibrary codec base) t p w =
     (case openInput codec (inputFile t) p w of
        Inl e \<Rightarrow> (Inl e, w)
      | Inr src \<Rightarrow>
          encode codec p (render codec t src) (chosenFormat codec t p w)
            (chosenQuality t (chosenFormat codec t p w)) w)"
  by (simp add: imageLibrary_def)

lemma library_run:
  assumes run: "handleOptimizeImage (imageLibrary codec base) a s = (r, s')"
      and ok: "isError r \<noteq> Some True"
  shows "\<exists>w1 t src.
      ensureDir base (dirname base (outputPath a)) (world s) = (Inr (), w1) \<and>
      optimize_build (imageLibrary codec base) a = Inr t \<and>
      openInput codec (inputPath a) (outputPath a) w1 = Inr src \<and>
      encode codec (outputPath a) (render codec t src)
        (chosenFormat codec t (outputPath a) w1)
        (chosenQuality t (chosenFormat codec t (outputPath a) w1)) w1 = (Inr (), world s')"
proof -
  from run ok have "optimize_try (imageLibrary codec base) a (world s) = (Inr r, world s')"
    using handleOptimizeImage_success_iff [of "imageLibrary codec base" a s r s'] by simp
  then obtain w1 t where
    e: "ensureDir (imageLibrary codec base)
          (dirname (imageLibrary codec base) (outputPath a)) (world s) = (Inr (), w1)"
    and b: "optimize_build (imageLibrary codec base) a = Inr t"
    and f: "toFile (imageLibrary codec base) t (outputPath a) w1 = (Inr (), world s')"
    unfolding optimize_try_Inr_iff by blast
  from e have e': "ensureDir base (dirname base (outputPath a)) (world s) = (Inr (), w1)"
    by (simp add: imageLibrary_def)
  from library_build_Inr [OF b] have i: "inputFile t = inputPath a" by simp
  from f i obtain src where
    "openInput codec (inputPath a) (outputPath a) w1 = Inr src"
    "encode codec (outputPath a) (render codec t src)
        (chosenFormat codec t (outputPath a) w1)
        (chosenQuality t (chosenFormat codec t (outputPath a) w1)) w1 = (Inr (), world s')"
    unfolding library_toFile by (auto split: sum.splits)
  with e' b show ?thesis by blast
qed

lemma handleOptimizeImage_build_cong:
  "optimize_build env a = optimize_build env a' \<Longrightarrow> outputPath a = outputPath a' \<Longrightarrow>
   handleOptimizeImage env a s = handleOptimizeImage env a' s"
  by (simp add: handleOptimizeImage_def optimize_try_def cong: sum.case_cong prod.case_cong)

section \<open>Paths of the recorded runs\<close>

lemma dirname_out: "posix_dirname ''./out/a.png'' = ''./out''"
  by (simp add: posix_dirname_def)

lemma dirname_bare: "posix_dirname ''out.jpg'' = ''.''"
  by (simp add: posix_dirname_def)

lemma extension_jpg: "extension ''out.jpg'' = ''jpg''"
  by (simp add: extension_def)


lemma library_run_width_100:
  "handleOptimizeImage (imageLibrary rec_codec (rec_env never))
     \<lparr>inputPath = ''in.jpg'', outputPath = ''out.jpg'',
      width = Some (Num 100), height = None, quality = None\<rparr> start =
     (\<lparr>content = [\<lparr>type = ''text'', text = ''Successfully optimized image to out.jpg''\<rparr>],
       isError = None\<rparr>,
      \<lparr>world = [EnsureDir ''.'',
                Encode ''out.jpg'' \<lparr>imageWidth = 100, imageHeight = 50\<rparr> ''jpeg'' None],
       stderr = []\<rparr>)"
  by (simp add: handleOptimizeImage_def optimize_try_def optimize_build_def
      resizeIfSpecified_def setQualityIfSpecified_def imageLibrary_def rec_codec_def
      rec_env_def never_def start_def dirname_bare render_def chosenFormat_def
      chosenQuality_def fitInside_spec_example extension_jpg)

lemma library_run_width_1000:
  "handleOptimizeImage (imageLibrary rec_codec (rec_env never))
     \<lparr>inputPath = ''in.jpg'', outputPath = ''out.jpg'',
      width = Some (Num 1000), height = None, quality = None\<rparr> start =
     (\<lparr>content = [\<lparr>type = ''text'', text = ''Successfully optimized image to out.jpg''\<rparr>],
       isError = None\<rparr>,
      \<lparr>world = [EnsureDir ''.'',
                Encode ''out.jpg'' \<lparr>imageWidth = 400, imageHeight = 200\<rparr> ''jpeg'' None],
       stderr = []\<rparr>)"
  by (simp add: handleOptimizeImage_def optimize_try_def optimize_build_def
      resizeIfSpecified_def setQualityIfSpecified_def imageLibrary_def rec_codec_def
      rec_env_def never_def start_def dirname_bare render_def chosenFormat_def
      chosenQuality_def fitInside_no_enlargement extension_jpg)

section \<open>Failures inside a handler\<close>



text \<open>
  C10. When a handler fails after the directory creation has succeeded, whatever the
  creation established and the later library calls do not undo still holds in the world
  the handler returns: the world it returns is the one its try block left, and the catch
  branch calls no collaborator.
\<close>

theorem failure_keeps_directories:
  assumes ax: "\<And>c w. P w \<Longrightarrow> P (snd (axios env c w))"
      and wr: "\<And>p d w. P w \<Longrightarrow> P (snd (writeFile env p d w))"
      and tf: "\<And>t p w. P w \<Longrightarrow> P (snd (toFile env t p w))"
  shows
  "world (snd (handleDownloadImage env a s)) = snd (download_try env a (world s)) \<and>
   world (snd (handleOptimizeImage env b s)) = snd (optimize_try env b (world s)) \<and>
   (ensureDir env (dirname env (DownloadImageArgs.outputPath a)) (world s) = (Inr (), w1) \<and>
    P w1 \<and> isError (fst (handleDownloadImage env a s)) = Some True
    \<longrightarrow> P (world (snd (handleDownloadImage env a s)))) \<and>
   (ensureDir env (dirname env (outputPath b)) (world s) = (Inr (), w1) \<and>
    P w1 \<and> isError (fst (handleOptimizeImage env b s)) = Some True
    \<longrightarrow> P (world (snd (handleOptimizeImage env b s))))"
proof (intro conjI impI)
  show d: "world (snd (handleDownloadImage env a s)) = snd (download_try env a (world s))"
    by (simp add: handleDownloadImage_def split: prod.splits sum.splits)
  show o: "world (snd (handleOptimizeImage env b s)) = snd (optimize_try env b (world s))"
    by (simp add: handleOptimizeImage_def split: prod.splits sum.splits)
  {
    assume h: "ensureDir env (dirname env (DownloadImageArgs.outputPath a)) (world s) = (Inr (), w1) \<and>
      P w1 \<and> isError (fst (handleDownloadImage env a s)) = Some True"
    have "P (snd (download_try env a (world s)))"
    proof (cases "axios env (downloadRequest a) w1")
      case (Pair x w2)
      from ax [of w1 "downloadRequest a"] h Pair have p2: "P w2" by simp
      show ?thesis
      proof (cases x)
        case (Inl e)
        with Pair h p2 show ?thesis by (simp add: download_try_def)
      next
        case (Inr data)
        from wr [OF p2, of "DownloadImageArgs.outputPath a" data]
        have "P (snd (writeFile env (DownloadImageArgs.outputPath a) data w2))" .
        with Pair Inr h show ?thesis
          by (auto simp: download_try_def split: prod.splits sum.splits)
      qed
    qed
    with d show "P (world (snd (handleDownloadImage env a s)))" by simp
  }
  {
    assume h: "ensureDir env (dirname env (outputPath b)) (world s) = (Inr (), w1) \<and>
      P w1 \<and> isError (fst (handleOptimizeImage env b s)) = Some True"
    have "P (snd (optimize_try env b (world s)))"
    proof (cases "optimize_build env b")
      case (Inl e)
      with h show ?thesis by (simp add: optimize_try_def)
    next
      case (Inr t)
      from tf [of w1 t "outputPath b"] h
      have "P (snd (toFile env t (outputPath b) w1))" by simp
      with Inr h show ?thesis
        by (auto simp: optimize_try_def split: prod.splits sum.splits)
    qed
    with o show "P (world (snd (handleOptimizeImage env b s)))" by simp
  }
qed

theorem failure_keeps_directories_witness:
  "ensureDir (rec_env flaky) ''./out'' (world start) = (Inr (), [EnsureDir ''./out'']) \<and>
   isError (fst (handleDownloadImage (rec_env flaky)
     \<lparr>DownloadImageArgs.url = ''https://example.com/slow.png'', outputPath = ''./out/a.png''\<rparr>
     start)) = Some True \<and>
   EnsureDir ''./out'' \<in> set (world (snd (handleDownloadImage (rec_env flaky)
     \<lparr>DownloadImageArgs.url = ''https://example.com/slow.png'', outputPath = ''./out/a.png''\<rparr>
     start))) \<and>
   isError (fst (handleOptimizeImage (rec_env flaky)
     \<lparr>inputPath = ''missing.jpg'', outputPath = ''./out/a.png'',
      width = None, height = None, quality = None\<rparr> start)) = Some True \<and>
   EnsureDir ''./out'' \<in> set (world (snd (handleOptimizeImage (rec_env flaky)
     \<lparr>inputPath = ''missing.jpg'', outputPath = ''./out/a.png'',
      width = None, height = None, quality = None\<rparr> start)))"
proof -
  let ?P = "\<lambda>w. EnsureDir ''./out'' \<in> set w"
  let ?a = "\<lparr>DownloadImageArgs.url = ''https://example.com/slow.png'', outputPath = ''./out/a.png''\<rparr>"
  let ?b = "\<lparr>inputPath = ''missing.jpg'', outputPath = ''./out/a.png'',
      width = None, height = None, quality = None\<rparr>"
  have ax: "\<And>c w. ?P w \<Longrightarrow> ?P (snd (axios (rec_env flaky) c w))"
    by (simp add: rec_env_def)
  have wr: "\<And>p d w. ?P w \<Longrightarrow> ?P (snd (writeFile (rec_env flaky) p d w))"
    by (simp add: rec_env_def)
  have tf: "\<And>t p w. ?P w \<Longrightarrow> ?P (snd (toFile (rec_env flaky) t p w))"
    by (simp add: rec_env_def)
  have e: "ensureDir (rec_env flaky) ''./out'' (world start) = (Inr (), [EnsureDir ''./out''])"
    by (simp add: rec_env_def start_def)
  have fd: "isError (fst (handleDownloadImage (rec_env flaky) ?a start)) = Some True"
    by (simp add: handleDownloadImage_def download_try_def rec_env_def start_def dirname_out)
  have fo: "isError (fst (handleOptimizeImage (rec_env flaky) ?b start)) = Some True"
    by (simp add: handleOptimizeImage_def optimize_try_def optimize_build_def
        resizeIfSpecified_def setQualityIfSpecified_def rec_env_def start_def dirname_out)
  have ed: "ensureDir (rec_env flaky)
      (dirname (rec_env flaky) (DownloadImageArgs.outputPath ?a)) (world start) =
      (Inr (), [EnsureDir ''./out''])"
    by (simp add: rec_env_def start_def dirname_out)
  have eo: "ensureDir (rec_env flaky)
      (dirname (rec_env flaky) (outputPath ?b)) (world start) =
      (Inr (), [EnsureDir ''./out''])"
    by (simp add: rec_env_def start_def dirname_out)
  have p1: "?P [EnsureDir ''./out'']" by simp
  from failure_keeps_directories
    [of ?P "rec_env flaky" ?a start ?b "[EnsureDir ''./out'']", OF ax wr tf] ed eo fd fo p1
  have "?P (world (snd (handleDownloadImage (rec_env flaky) ?a start)))"
    and "?P (world (snd (handleOptimizeImage (rec_env flaky) ?b start)))"
    by blast+
  with e fd fo show ?thesis by blast
qed

section \<open>Dispatch and validation\<close>

text \<open>
  C2. A call reaches its handler exactly when the bag has the shape the specification
  words: the guards are those predicates, a bag that fails one gets the invalid-parameters
  error with the state untouched, and a bag that passes gets the handler's result.
  Strings and numbers of any value pass: no range and no URL syntax is checked.
\<close>

theorem validation_gate:
  "(isDownloadImageArgs args \<longleftrightarrow> spec_download_shape args) \<and>
   (isOptimizeImageArgs args \<longleftrightarrow> spec_optimize_shape args) \<and>
   CallToolHandler env \<lparr>name = ''download_image'', arguments = args\<rparr> s =
     (if spec_download_shape args
      then (Inr (fst (handleDownloadImage env (asDownloadImageArgs args) s)),
            snd (handleDownloadImage env (asDownloadImageArgs args) s))
      else (Inl (McpError InvalidParams ''Invalid arguments for download_image''), s)) \<and>
   CallToolHandler env \<lparr>name = ''optimize_image'', arguments = args\<rparr> s =
     (if spec_optimize_shape args
      then (Inr (fst (handleOptimizeImage env (asOptimizeImageArgs args) s)),
            snd (handleOptimizeImage env (asOptimizeImageArgs args) s))
      else (Inl (McpError InvalidParams ''Invalid arguments for optimize_image''), s)) \<and>
   isDownloadImageArgs (Some (JObj [(''url'', JStr u), (''outputPath'', JStr p)])) \<and>
   isOptimizeImageArgs
     (Some (JObj [(''inputPath'', JStr i), (''outputPath'', JStr p),
                  (''width'', JNum w), (''height'', JNum h), (''quality'', JNum q)]))"
proof -
  have d: "isDownloadImageArgs args \<longleftrightarrow> spec_download_shape args"
    by (rule isDownloadImageArgs_spec)
  have o: "isOptimizeImageArgs args \<longleftrightarrow> spec_optimize_shape args"
    by (rule isOptimizeImageArgs_spec)
  have cd: "CallToolHandler env \<lparr>name = ''download_image'', arguments = args\<rparr> s =
     (if spec_download_shape args
      then (Inr (fst (handleDownloadImage env (asDownloadImageArgs args) s)),
            snd (handleDownloadImage env (asDownloadImageArgs args) s))
      else (Inl (McpError InvalidParams ''Invalid arguments for download_image''), s))"
    by (simp add: CallToolHandler_def d split: prod.splits)
  have co: "CallToolHandler env \<lparr>name = ''optimize_image'', arguments = args\<rparr> s =
     (if spec_optimize_shape args
      then (Inr (fst (handleOptimizeImage env (asOptimizeImageArgs args) s)),
            snd (handleOptimizeImage env (asOptimizeImageArgs args) s))
      else (Inl (McpError InvalidParams ''Invalid arguments for optimize_image''), s))"
    by (simp add: CallToolHandler_def o split: prod.splits)
  have nd: "isDownloadImageArgs (Some (JObj [(''url'', JStr u), (''outputPath'', JStr p)]))"
    by (simp add: isDownloadImageArgs_def)
  have no: "isOptimizeImageArgs
     (Some (JObj [(''inputPath'', JStr i), (''outputPath'', JStr p),
                  (''width'', JNum w), (''height'', JNum h), (''quality'', JNum q)]))"
    by (simp add: isOptimizeImageArgs_def)
  from d o cd co nd no show ?thesis by blast
qed

theorem validation_gate_witness:
  "\<not> spec_download_shape (Some (JObj [(''url'', JStr ''http://x'')])) \<and>
   CallToolHandler (rec_env never)
     \<lparr>name = ''download_image'', arguments = Some (JObj [(''url'', JStr ''http://x'')])\<rparr> start =
     (Inl (McpError InvalidParams ''Invalid arguments for download_image''), start) \<and>
   spec_optimize_shape
     (Some (JObj [(''inputPath'', JStr ''in.jpg''), (''outputPath'', JStr ''out.jpg''),
                  (''quality'', JNum (Num 500))])) \<and>
   isOptimizeImageArgs
     (Some (JObj [(''inputPath'', JStr ''in.jpg''), (''outputPath'', JStr ''out.jpg''),
                  (''quality'', JNum (Num 500))])) \<and>
   \<not> isOptimizeImageArgs
     (Some (JObj [(''inputPath'', JStr ''in.jpg''), (''outputPath'', JStr ''out.jpg''),
                  (''quality'', JStr ''80'')])) \<and>
   CallToolHandler (rec_env never)
     \<lparr>name = ''optimize_image'',
      arguments = Some (JObj [(''inputPath'', JStr ''in.jpg''), (''outputPath'', JStr ''out.jpg''),
                              (''quality'', JStr ''80'')])\<rparr> start =
     (Inl (McpError InvalidParams ''Invalid arguments for optimize_image''), start)"
  using validation_gate [of "Some (JObj [(''url'', JStr ''http://x'')])" "rec_env never" start]
    validation_gate [of "Some (JObj [(''inputPath'', JStr ''in.jpg''), (''outputPath'', JStr ''out.jpg''),
                  (''quality'', JNum (Num 500))])" "rec_env never" start]
    validation_gate [of "Some (JObj [(''inputPath'', JStr ''in.jpg''), (''outputPath'', JStr ''out.jpg''),
                  (''quality'', JStr ''80'')])" "rec_env never" start]
  by (simp add: spec_download_shape_def spec_optimize_shape_def)

text \<open>
  C3. A call whose tool name is neither \<open>download_image\<close> nor \<open>optimize_image\<close> throws
  the method-not-found error, whose message carries the name. The state is the one the
  call started in, so no handler ran, and the outcome is the error, not a tool result.
\<close>

theorem unknown_tool:
  "name request \<noteq> ''download_image'' \<Longrightarrow> name request \<noteq> ''optimize_image'' \<Longrightarrow>
   CallToolHandler env request s =
     (Inl (McpError MethodNotFound (''Unknown tool: '' @ name request)), s)"
  by (simp add: CallToolHandler_def)

theorem unknown_tool_witness:
  "CallToolHandler (rec_env never) \<lparr>name = ''delete_image'', arguments = None\<rparr> start =
     (Inl (McpError MethodNotFound ''Unknown tool: delete_image''), start)"
  using unknown_tool [of "\<lparr>name = ''delete_image'', arguments = None\<rparr>" "rec_env never" start]
  by simp

text \<open>
  C7, as the specification states it, fails: a bag whose \<open>url\<close> and \<open>outputPath\<close> are
  empty strings passes the guard and the handler runs (the directory is ensured and the
  GET is issued) before anything fails.
\<close>

theorem empty_strings_counterexample:
  "isDownloadImageArgs (Some (JObj [(''url'', JStr []), (''outputPath'', JStr [])])) \<and>
   CallToolHandler (rec_env flaky)
     \<lparr>name = ''download_image'',
      arguments = Some (JObj [(''url'', JStr []), (''outputPath'', JStr [])])\<rparr> start =
     (Inr \<lparr>content = [\<lparr>type = ''text'',
                        text = ''Failed to download image: timeout of 30000ms exceeded''\<rparr>],
           isError = Some True\<rparr>,
      \<lparr>world = [EnsureDir ''.'',
                HttpGet \<lparr>method = ''GET'', url = [], responseType = ''arraybuffer'',
                         headers = [(''User-Agent'', userAgent)], timeout = 30000\<rparr>],
       stderr = [''Download error: timeout of 30000ms exceeded'']\<rparr>)"
  by (simp add: isDownloadImageArgs_def CallToolHandler_def asDownloadImageArgs_def
      handleDownloadImage_def download_try_def downloadRequest_def rec_env_def start_def
      posix_dirname_def)

text \<open>
  C7, amended. A \<open>download_image\<close> bag whose \<open>url\<close> and \<open>outputPath\<close> are strings, empty
  or not, passes validation and the call returns what the handler returns for them.
\<close>

theorem strings_may_be_empty:
  "map_of kvs ''url'' = Some (JStr u) \<Longrightarrow> map_of kvs ''outputPath'' = Some (JStr p) \<Longrightarrow>
   isDownloadImageArgs (Some (JObj kvs)) \<and>
   CallToolHandler env \<lparr>name = ''download_image'', arguments = Some (JObj kvs)\<rparr> s =
     (Inr (fst (handleDownloadImage env \<lparr>DownloadImageArgs.url = u, outputPath = p\<rparr> s)),
      snd (handleDownloadImage env \<lparr>DownloadImageArgs.url = u, outputPath = p\<rparr> s))"
  by (simp add: isDownloadImageArgs_def CallToolHandler_def asDownloadImageArgs_def
      split: prod.splits)

theorem strings_may_be_empty_witness:
  "map_of [(''url'', JStr []), (''outputPath'', JStr [])] ''url'' = Some (JStr []) \<and>
   map_of [(''url'', JStr []), (''outputPath'', JStr [])] ''outputPath'' = Some (JStr []) \<and>
   isDownloadImageArgs (Some (JObj [(''url'', JStr []), (''outputPath'', JStr [])])) \<and>
   CallToolHandler (rec_env never)
     \<lparr>name = ''download_image'',
      arguments = Some (JObj [(''url'', JStr []), (''outputPath'', JStr [])])\<rparr> start =
     (Inr (fst (handleDownloadImage (rec_env never)
                  \<lparr>DownloadImageArgs.url = [], outputPath = []\<rparr> start)),
      snd (handleDownloadImage (rec_env never)
             \<lparr>DownloadImageArgs.url = [], outputPath = []\<rparr> start))"
proof -
  have u: "map_of [(''url'', JStr []), (''outputPath'', JStr [])] ''url'' = Some (JStr [])"
    by simp
  have p: "map_of [(''url'', JStr []), (''outputPath'', JStr [])] ''outputPath'' = Some (JStr [])"
    by simp
  from strings_may_be_empty [OF u p, of "rec_env never" start] u p show ?thesis
    by blast
qed

section \<open>The download handler's successful run\<close>

text \<open>
  C4. A download that does not end in an error result made exactly three calls, each
  on the world the previous one left: \<open>ensureDir\<close> on the directory name of \<open>outputPath\<close>,
  one GET of \<open>url\<close> with the fixed User-Agent, a timeout of 30000 ms and response type
  \<open>arraybuffer\<close>, and \<open>writeFile\<close> of the whole response to \<open>outputPath\<close>. Nothing is written
  to stderr, and the result has no \<open>isError\<close> and the text ends with \<open>outputPath\<close>.
\<close>

theorem download_success_effects:
  "handleDownloadImage env a s = (r, s') \<Longrightarrow> isError r \<noteq> Some True \<Longrightarrow>
   \<exists>w1 d w2 w3.
     ensureDir env (dirname env (DownloadImageArgs.outputPath a)) (world s) = (Inr (), w1) \<and>
     axios env
       \<lparr>method = ''GET'', url = DownloadImageArgs.url a, responseType = ''arraybuffer'',
        headers = [(''User-Agent'', userAgent)], timeout = 30000\<rparr> w1 = (Inr d, w2) \<and>
     writeFile env (DownloadImageArgs.outputPath a) d w2 = (Inr (), w3) \<and>
     s' = \<lparr>world = w3, stderr = stderr s\<rparr> \<and>
     r = \<lparr>content = [\<lparr>type = ''text'',
                        text = ''Successfully downloaded image to '' @
                               DownloadImageArgs.outputPath a\<rparr>],
           isError = None\<rparr>"
proof -
  assume run: "handleDownloadImage env a s = (r, s')" and ok: "isError r \<noteq> Some True"
  then have "download_try env a (world s) = (Inr r, world s') \<and> s' = s\<lparr>world := world s'\<rparr>"
    using handleDownloadImage_success_iff [of env a s r s'] by simp
  then obtain w1 d w2 where
    "ensureDir env (dirname env (DownloadImageArgs.outputPath a)) (world s) = (Inr (), w1)"
    "axios env (downloadRequest a) w1 = (Inr d, w2)"
    "writeFile env (DownloadImageArgs.outputPath a) d w2 = (Inr (), world s')"
    "r = \<lparr>content = [\<lparr>type = ''text'',
                        text = ''Successfully downloaded image to '' @
                               DownloadImageArgs.outputPath a\<rparr>],
           isError = None\<rparr>"
    "s' = s\<lparr>world := world s'\<rparr>"
    unfolding download_try_Inr_iff by blast
  moreover from \<open>s' = s\<lparr>world := world s'\<rparr>\<close>
  have "s' = \<lparr>world = world s', stderr = stderr s\<rparr>"
    by (cases s, cases s') simp
  ultimately show ?thesis
    unfolding downloadRequest_def by blast
qed

theorem download_success_effects_witness:
  "handleDownloadImage (rec_env never)
     \<lparr>DownloadImageArgs.url = ''https://example.com/valid.png'', outputPath = ''./out/a.png''\<rparr>
     start =
     (\<lparr>content = [\<lparr>type = ''text'', text = ''Successfully downloaded image to ./out/a.png''\<rparr>],
       isError = None\<rparr>,
      \<lparr>world = [EnsureDir ''./out'',
                HttpGet \<lparr>method = ''GET'', url = ''https://example.com/valid.png'',
                         responseType = ''arraybuffer'',
                         headers = [(''User-Agent'', userAgent)], timeout = 30000\<rparr>,
                WriteFile ''./out/a.png'' payload],
       stderr = []\<rparr>) \<and>
   (\<exists>w1 d w2 w3.
     ensureDir (rec_env never) ''./out'' [] = (Inr (), w1) \<and>
     axios (rec_env never)
       \<lparr>method = ''GET'', url = ''https://example.com/valid.png'', responseType = ''arraybuffer'',
        headers = [(''User-Agent'', userAgent)], timeout = 30000\<rparr> w1 = (Inr d, w2) \<and>
     writeFile (rec_env never) ''./out/a.png'' d w2 = (Inr (), w3) \<and>
     w3 = [EnsureDir ''./out'',
           HttpGet \<lparr>method = ''GET'', url = ''https://example.com/valid.png'',
                    responseType = ''arraybuffer'',
                    headers = [(''User-Agent'', userAgent)], timeout = 30000\<rparr>,
           WriteFile ''./out/a.png'' payload])"
proof -
  let ?a = "\<lparr>DownloadImageArgs.url = ''https://example.com/valid.png'', outputPath = ''./out/a.png''\<rparr>"
  let ?r = "\<lparr>content = [\<lparr>type = ''text'', text = ''Successfully downloaded image to ./out/a.png''\<rparr>],
       isError = None\<rparr>"
  let ?s = "\<lparr>world = [EnsureDir ''./out'',
                HttpGet \<lparr>method = ''GET'', url = ''https://example.com/valid.png'',
                         responseType = ''arraybuffer'',
                         headers = [(''User-Agent'', userAgent)], timeout = 30000\<rparr>,
                WriteFile ''./out/a.png'' payload],
       stderr = []\<rparr>"
  have run: "handleDownloadImage (rec_env never) ?a start = (?r, ?s)"
    by (simp add: handleDownloadImage_def download_try_def downloadRequest_def rec_env_def
        never_def start_def dirname_out)
  have ok: "isError ?r \<noteq> Some True" by simp
  from download_success_effects [OF run ok] run show ?thesis
    by (simp add: start_def dirname_out rec_env_def)
qed

section \<open>Resizing and quality\<close>

text \<open>
  C5, as the specification states it, fails: with \<open>width\<close> present and 0 the request is
  validated and the pipeline written has no resize step.
\<close>

theorem zero_width_counterexample:
  "isOptimizeImageArgs
     (Some (JObj [(''inputPath'', JStr ''in.jpg''), (''outputPath'', JStr ''out.jpg''),
                  (''width'', JNum (Num 0))])) \<and>
   CallToolHandler (rec_env never)
     \<lparr>name = ''optimize_image'',
      arguments = Some (JObj [(''inputPath'', JStr ''in.jpg''), (''outputPath'', JStr ''out.jpg''),
                              (''width'', JNum (Num 0))])\<rparr> start =
     (Inr \<lparr>content = [\<lparr>type = ''text'', text = ''Successfully optimized image to out.jpg''\<rparr>],
           isError = None\<rparr>,
      \<lparr>world = [EnsureDir ''.'', ToFile [Sharp ''in.jpg''] ''out.jpg''], stderr = []\<rparr>)"
  by (simp add: isOptimizeImageArgs_def CallToolHandler_def asOptimizeImageArgs_def
      handleOptimizeImage_def optimize_try_def optimize_build_def resizeIfSpecified_def
      setQualityIfSpecified_def rec_env_def never_def start_def dirname_bare)

text \<open>
  C5, amended. When \<open>width\<close> or \<open>height\<close> is truthy (present, and neither 0 nor NaN) and
  the run does not end in an error result, the image the handler writes is the decoded
  input resized by the library to fit inside the box of the given dimensions: no wider
  and no higher than a given bound, no larger than the input, and with the input's
  aspect ratio up to the rounding to whole pixels. When neither is truthy the image
  written is the decoded input as it is. The library is the one modelled above.
\<close>

theorem resize_fits_inside:
  assumes run: "handleOptimizeImage (imageLibrary codec base) a s = (r, s')"
      and ok: "isError r \<noteq> Some True"
  shows "\<exists>w1 t src out.
      ensureDir base (dirname base (outputPath a)) (world s) = (Inr (), w1) \<and>
      optimize_build (imageLibrary codec base) a = Inr t \<and>
      openInput codec (inputPath a) (outputPath a) w1 = Inr src \<and>
      out = render codec t src \<and>
      encode codec (outputPath a) out
        (chosenFormat codec t (outputPath a) w1)
        (chosenQuality t (chosenFormat codec t (outputPath a) w1)) w1 = (Inr (), world s') \<and>
      (if truthy_opt (width a) \<or> truthy_opt (height a)
       then (\<forall>n. width a = Some (Num n) \<longrightarrow> of_nat (imageWidth out) \<le> n) \<and>
            (\<forall>n. height a = Some (Num n) \<longrightarrow> of_nat (imageHeight out) \<le> n) \<and>
            imageWidth out \<le> imageWidth src \<and>
            imageHeight out \<le> imageHeight src \<and>
            2 * \<bar>int (imageWidth out) * int (imageHeight src) -
                  int (imageHeight out) * int (imageWidth src)\<bar>
              \<le> int (imageWidth src) + int (imageHeight src)
       else out = src)"
proof -
  from library_run [OF run ok] obtain w1 t src where c:
    "ensureDir base (dirname base (outputPath a)) (world s) = (Inr (), w1)"
    "optimize_build (imageLibrary codec base) a = Inr t"
    "openInput codec (inputPath a) (outputPath a) w1 = Inr src"
    "encode codec (outputPath a) (render codec t src)
        (chosenFormat codec t (outputPath a) w1)
        (chosenQuality t (chosenFormat codec t (outputPath a) w1)) w1 = (Inr (), world s')"
    by blast
  have g: "if truthy_opt (width a) \<or> truthy_opt (height a)
       then (\<forall>n. width a = Some (Num n) \<longrightarrow> of_nat (imageWidth (render codec t src)) \<le> n) \<and>
            (\<forall>n. height a = Some (Num n) \<longrightarrow> of_nat (imageHeight (render codec t src)) \<le> n) \<and>
            imageWidth (render codec t src) \<le> imageWidth src \<and>
            imageHeight (render codec t src) \<le> imageHeight src \<and>
            2 * \<bar>int (imageWidth (render codec t src)) * int (imageHeight src) -
                  int (imageHeight (render codec t src)) * int (imageWidth src)\<bar>
              \<le> int (imageWidth src) + int (imageHeight src)
       else render codec t src = src"
  proof (cases "truthy_opt (width a) \<or> truthy_opt (height a)")
    case True
    with library_build_Inr [OF c(2)] obtain bw bh where p:
      "pixels (width a) = Inr bw" "pixels (height a) = Inr bh"
      "resizeTo t = Some (bw, bh, \<lparr>fit = ''inside'', withoutEnlargement = True\<rparr>)"
      by auto
    from p(3) have "render codec t src = fitInside src bw bh"
      by (simp add: render_def)
    with fitInside_bounds [OF p(1,2), of src] True show ?thesis
      by simp
  next
    case False
    with library_build_Inr [OF c(2)] have "resizeTo t = None" by simp
    then have "render codec t src = src" by (simp add: render_def)
    with False show ?thesis by simp
  qed
  from c g show ?thesis by blast
qed

theorem resize_fits_inside_witness:
  "handleOptimizeImage (imageLibrary rec_codec (rec_env never))
     \<lparr>inputPath = ''in.jpg'', outputPath = ''out.jpg'',
      width = Some (Num 100), height = None, quality = None\<rparr> start =
     (\<lparr>content = [\<lparr>type = ''text'', text = ''Successfully optimized image to out.jpg''\<rparr>],
       isError = None\<rparr>,
      \<lparr>world = [EnsureDir ''.'',
                Encode ''out.jpg'' \<lparr>imageWidth = 100, imageHeight = 50\<rparr> ''jpeg'' None],
       stderr = []\<rparr>) \<and>
   (\<exists>t out.
      optimize_build (imageLibrary rec_codec (rec_env never))
        \<lparr>inputPath = ''in.jpg'', outputPath = ''out.jpg'',
         width = Some (Num 100), height = None, quality = None\<rparr> = Inr t \<and>
      out = render rec_codec t \<lparr>imageWidth = 400, imageHeight = 200\<rparr> \<and>
      out = \<lparr>imageWidth = 100, imageHeight = 50\<rparr> \<and>
      rat_of_nat (imageWidth out) \<le> 100 \<and>
      imageWidth out \<le> 400 \<and> imageHeight out \<le> 200 \<and>
      2 * \<bar>int (imageWidth out) * 200 - int (imageHeight out) * 400\<bar> \<le> 400 + 200) \<and>
   handleOptimizeImage (imageLibrary rec_codec (rec_env never))
     \<lparr>inputPath = ''in.jpg'', outputPath = ''out.jpg'',
      width = Some (Num 1000), height = None, quality = None\<rparr> start =
     (\<lparr>content = [\<lparr>type = ''text'', text = ''Successfully optimized image to out.jpg''\<rparr>],
       isError = None\<rparr>,
      \<lparr>world = [EnsureDir ''.'',
                Encode ''out.jpg'' \<lparr>imageWidth = 400, imageHeight = 200\<rparr> ''jpeg'' None],
       stderr = []\<rparr>)"
proof -
  let ?a = "\<lparr>inputPath = ''in.jpg'', outputPath = ''out.jpg'',
      width = Some (Num 100), height = None, quality = None\<rparr>"
  let ?r = "\<lparr>content = [\<lparr>type = ''text'', text = ''Successfully optimized image to out.jpg''\<rparr>],
       isError = None\<rparr>"
  let ?s = "\<lparr>world = [EnsureDir ''.'',
                Encode ''out.jpg'' \<lparr>imageWidth = 100, imageHeight = 50\<rparr> ''jpeg'' None],
       stderr = []\<rparr>"
  have ok: "isError ?r \<noteq> Some True" by simp
  from resize_fits_inside [OF library_run_width_100 ok]
  obtain w1 t src out where c:
    "optimize_build (imageLibrary rec_codec (rec_env never)) ?a = Inr t"
    "openInput rec_codec (inputPath ?a) (outputPath ?a) w1 = Inr src"
    "out = render rec_codec t src"
    "if truthy_opt (width ?a) \<or> truthy_opt (height ?a)
       then (\<forall>n. width ?a = Some (Num n) \<longrightarrow> of_nat (imageWidth out) \<le> n) \<and>
            (\<forall>n. height ?a = Some (Num n) \<longrightarrow> of_nat (imageHeight out) \<le> n) \<and>
            imageWidth out \<le> imageWidth src \<and>
            imageHeight out \<le> imageHeight src \<and>
            2 * \<bar>int (imageWidth out) * int (imageHeight src) -
                  int (imageHeight out) * int (imageWidth src)\<bar>
              \<le> int (imageWidth src) + int (imageHeight src)
       else out = src"
    by blast
  from c(2) have src: "src = \<lparr>imageWidth = 400, imageHeight = 200\<rparr>"
    by (simp add: rec_codec_def)
  from c(1) have t: "t = \<lparr>inputFile = ''in.jpg'',
      resizeTo = Some (Some 100, None, \<lparr>fit = ''inside'', withoutEnlargement = True\<rparr>),
      jpegQuality = None, webpQuality = None, formatOut = None\<rparr>"
    by (simp add: optimize_build_def resizeIfSpecified_def setQualityIfSpecified_def
        imageLibrary_def)
  from c(3) src t have out: "out = \<lparr>imageWidth = 100, imageHeight = 50\<rparr>"
    by (simp add: render_def fitInside_spec_example)
  from c(4) src have b: "rat_of_nat (imageWidth out) \<le> 100"
    "imageWidth out \<le> 400" "imageHeight out \<le> 200"
    "2 * \<bar>int (imageWidth out) * 200 - int (imageHeight out) * 400\<bar> \<le> 400 + 200"
    by simp_all
  from c(1) c(3) src out b have "\<exists>t out.
      optimize_build (imageLibrary rec_codec (rec_env never)) ?a = Inr t \<and>
      out = render rec_codec t \<lparr>imageWidth = 400, imageHeight = 200\<rparr> \<and>
      out = \<lparr>imageWidth = 100, imageHeight = 50\<rparr> \<and>
      rat_of_nat (imageWidth out) \<le> 100 \<and>
      imageWidth out \<le> 400 \<and> imageHeight out \<le> 200 \<and>
      2 * \<bar>int (imageWidth out) * 200 - int (imageHeight out) * 400\<bar> \<le> 400 + 200"
    by blast
  with library_run_width_100 library_run_width_1000 show ?thesis by blast
qed




text \<open>
  C9, as stated, fails: with \<open>width\<close> 0 and \<open>height\<close> 100 the request is validated, the
  resize is requested, and the 0 is handed to the library as the width; the same request
  without \<open>width\<close> hands it no width.
\<close>

theorem zero_width_with_height_counterexample:
  "isOptimizeImageArgs
     (Some (JObj [(''inputPath'', JStr ''in.jpg''), (''outputPath'', JStr ''out.jpg''),
                  (''width'', JNum (Num 0)), (''height'', JNum (Num 100))])) \<and>
   CallToolHandler (rec_env never)
     \<lparr>name = ''optimize_image'',
      arguments = Some (JObj [(''inputPath'', JStr ''in.jpg''), (''outputPath'', JStr ''out.jpg''),
                              (''width'', JNum (Num 0)), (''height'', JNum (Num 100))])\<rparr> start =
     (Inr \<lparr>content = [\<lparr>type = ''text'', text = ''Successfully optimized image to out.jpg''\<rparr>],
           isError = None\<rparr>,
      \<lparr>world = [EnsureDir ''.'',
                ToFile [Sharp ''in.jpg'',
                        Resize (Some (Num 0)) (Some (Num 100))
                          \<lparr>fit = ''inside'', withoutEnlargement = True\<rparr>] ''out.jpg''],
       stderr = []\<rparr>) \<and>
   CallToolHandler (rec_env never)
     \<lparr>name = ''optimize_image'',
      arguments = Some (JObj [(''inputPath'', JStr ''in.jpg''), (''outputPath'', JStr ''out.jpg''),
                              (''height'', JNum (Num 100))])\<rparr> start =
     (Inr \<lparr>content = [\<lparr>type = ''text'', text = ''Successfully optimized image to out.jpg''\<rparr>],
           isError = None\<rparr>,
      \<lparr>world = [EnsureDir ''.'',
                ToFile [Sharp ''in.jpg'',
                        Resize None (Some (Num 100))
                          \<lparr>fit = ''inside'', withoutEnlargement = True\<rparr>] ''out.jpg''],
       stderr = []\<rparr>)"
  by (simp add: isOptimizeImageArgs_def CallToolHandler_def asOptimizeImageArgs_def
      handleOptimizeImage_def optimize_try_def optimize_build_def resizeIfSpecified_def
      setQualityIfSpecified_def rec_env_def never_def start_def dirname_bare)

text \<open>
  C9, amended. A width, height or quality of 0 passes validation and is falsy in the
  handler's tests. With each of width and height absent or 0 no resize is requested and
  the handler does what it does for the request without them; with quality 0 no encoder
  setting is made and the handler does what it does for the request without it. With
  one dimension 0 and the other truthy the resize is requested and the 0 is passed on.
\<close>

theorem zero_is_falsy:
  assumes w: "w = None \<or> w = Some (Num 0)"
      and h: "h = None \<or> h = Some (Num 0)"
      and n: "truthy_num n"
  shows
  "resizeIfSpecified env (a\<lparr>width := w, height := h\<rparr>) t = Inr t \<and>
   handleOptimizeImage env (a\<lparr>width := w, height := h\<rparr>) s =
     handleOptimizeImage env (a\<lparr>width := None, height := None\<rparr>) s \<and>
   resizeIfSpecified env (a\<lparr>width := Some (Num 0), height := Some n\<rparr>) t =
     resize env (Some (Num 0)) (Some n) \<lparr>fit = ''inside'', withoutEnlargement = True\<rparr> t \<and>
   resizeIfSpecified env (a\<lparr>width := Some n, height := Some (Num 0)\<rparr>) t =
     resize env (Some n) (Some (Num 0)) \<lparr>fit = ''inside'', withoutEnlargement = True\<rparr> t \<and>
   setQualityIfSpecified env (a\<lparr>quality := Some (Num 0)\<rparr>) t = Inr t \<and>
   handleOptimizeImage env (a\<lparr>quality := Some (Num 0)\<rparr>) s =
     handleOptimizeImage env (a\<lparr>quality := None\<rparr>) s \<and>
   isOptimizeImageArgs
     (Some (JObj [(''inputPath'', JStr i), (''outputPath'', JStr p),
                  (''width'', JNum (Num 0)), (''height'', JNum (Num 0)),
                  (''quality'', JNum (Num 0))]))"
proof -
  from w have fw: "\<not> truthy_opt w" by auto
  from h have fh: "\<not> truthy_opt h" by auto
  have fq: "\<not> truthy_opt (Some (Num 0))" by simp
  have 1: "resizeIfSpecified env (a\<lparr>width := w, height := h\<rparr>) t = Inr t"
    using fw fh by (simp add: resizeIfSpecified_def)
  have 2: "handleOptimizeImage env (a\<lparr>width := w, height := h\<rparr>) s =
     handleOptimizeImage env (a\<lparr>width := None, height := None\<rparr>) s"
    using optimize_build_falsy_dims [OF fw fh, of env a]
    by (rule handleOptimizeImage_build_cong) simp
  have 3: "resizeIfSpecified env (a\<lparr>width := Some (Num 0), height := Some n\<rparr>) t =
     resize env (Some (Num 0)) (Some n) \<lparr>fit = ''inside'', withoutEnlargement = True\<rparr> t"
    using n by (simp add: resizeIfSpecified_def)
  have 4: "resizeIfSpecified env (a\<lparr>width := Some n, height := Some (Num 0)\<rparr>) t =
     resize env (Some n) (Some (Num 0)) \<lparr>fit = ''inside'', withoutEnlargement = True\<rparr> t"
    using n by (simp add: resizeIfSpecified_def)
  have 5: "setQualityIfSpecified env (a\<lparr>quality := Some (Num 0)\<rparr>) t = Inr t"
    by (simp add: setQualityIfSpecified_def)
  have 6: "handleOptimizeImage env (a\<lparr>quality := Some (Num 0)\<rparr>) s =
     handleOptimizeImage env (a\<lparr>quality := None\<rparr>) s"
    using optimize_build_falsy_quality [OF fq, of env a]
    by (rule handleOptimizeImage_build_cong) simp
  have 7: "isOptimizeImageArgs
     (Some (JObj [(''inputPath'', JStr i), (''outputPath'', JStr p),
                  (''width'', JNum (Num 0)), (''height'', JNum (Num 0)),
                  (''quality'', JNum (Num 0))]))"
    by (simp add: isOptimizeImageArgs_def)
  from 1 2 3 4 5 6 7 show ?thesis by blast
qed

theorem zero_is_falsy_witness:
  "CallToolHandler (rec_env never)
     \<lparr>name = ''optimize_image'',
      arguments = Some (JObj [(''inputPath'', JStr ''in.jpg''), (''outputPath'', JStr ''out.jpg''),
                              (''width'', JNum (Num 0)), (''height'', JNum (Num 0)),
                              (''quality'', JNum (Num 0))])\<rparr> start =
     (Inr \<lparr>content = [\<lparr>type = ''text'', text = ''Successfully optimized image to out.jpg''\<rparr>],
           isError = None\<rparr>,
      \<lparr>world = [EnsureDir ''.'', ToFile [Sharp ''in.jpg''] ''out.jpg''], stderr = []\<rparr>) \<and>
   handleOptimizeImage (rec_env never)
     \<lparr>inputPath = ''in.jpg'', outputPath = ''out.jpg'',
      width = Some (Num 0), height = None, quality = None\<rparr> start =
   handleOptimizeImage (rec_env never)
     \<lparr>inputPath = ''in.jpg'', outputPath = ''out.jpg'',
      width = None, height = None, quality = None\<rparr> start \<and>
   handleOptimizeImage (rec_env never)
     \<lparr>inputPath = ''in.jpg'', outputPath = ''out.jpg'',
      width = None, height = None, quality = Some (Num 0)\<rparr> start =
   handleOptimizeImage (rec_env never)
     \<lparr>inputPath = ''in.jpg'', outputPath = ''out.jpg'',
      width = None, height = None, quality = None\<rparr> start \<and>
   resizeIfSpecified (rec_env never)
     \<lparr>inputPath = ''in.jpg'', outputPath = ''out.jpg'',
      width = Some (Num 0), height = Some (Num 100), quality = None\<rparr> [Sharp ''in.jpg''] =
     Inr [Sharp ''in.jpg'',
          Resize (Some (Num 0)) (Some (Num 100))
            \<lparr>fit = ''inside'', withoutEnlargement = True\<rparr>]"
proof -
  let ?a = "\<lparr>inputPath = ''in.jpg'', outputPath = ''out.jpg'',
      width = None, height = None, quality = None\<rparr>"
  have w: "Some (Num 0) = None \<or> Some (Num 0) = Some (Num (0::rat))" by simp
  have h: "None = None \<or> None = Some (Num (0::rat))" by simp
  have n: "truthy_num (Num 100)" by simp
  have run: "CallToolHandler (rec_env never)
     \<lparr>name = ''optimize_image'',
      arguments = Some (JObj [(''inputPath'', JStr ''in.jpg''), (''outputPath'', JStr ''out.jpg''),
                              (''width'', JNum (Num 0)), (''height'', JNum (Num 0)),
                              (''quality'', JNum (Num 0))])\<rparr> start =
     (Inr \<lparr>content = [\<lparr>type = ''text'', text = ''Successfully optimized image to out.jpg''\<rparr>],
           isError = None\<rparr>,
      \<lparr>world = [EnsureDir ''.'', ToFile [Sharp ''in.jpg''] ''out.jpg''], stderr = []\<rparr>)"
    by (simp add: isOptimizeImageArgs_def CallToolHandler_def asOptimizeImageArgs_def
      handleOptimizeImage_def optimize_try_def optimize_build_def resizeIfSpecified_def
      setQualityIfSpecified_def rec_env_def never_def start_def dirname_bare)
  from zero_is_falsy [OF w h n, of "rec_env never" ?a "[Sharp ''in.jpg'']" start] run
  show ?thesis by (simp add: rec_env_def never_def)
qed

section \<open>Listing\<close>

text \<open>
  C8. Listing returns the same two descriptors for every request and every state, also
  the state a tool call left, and returns the state unchanged; the descriptors are those
  of \<open>download_image\<close> and \<open>optimize_image\<close>, with the quality bounds 1 and 100.
\<close>

theorem listing_is_fixed:
  "ListToolsHandler request s =
     (JObj [(''tools'', JArr [downloadImageTool, optimizeImageTool])], s) \<and>
   fst (ListToolsHandler r1 s1) = fst (ListToolsHandler r2 s2) \<and>
   fst (ListToolsHandler request (snd (CallToolHandler env call s))) =
     fst (ListToolsHandler request s) \<and>
   getProp (Some downloadImageTool) ''name'' = Some (JStr ''download_image'') \<and>
   getProp (Some downloadImageTool) ''description'' =
     Some (JStr ''Download an image from a URL to a specified path'') \<and>
   getProp (getProp (Some downloadImageTool) ''inputSchema'') ''properties'' =
     Some (JObj [(''url'',
                  JObj [(''type'', JStr ''string''),
                        (''description'', JStr ''URL of the image to download'')]),
                 (''outputPath'',
                  JObj [(''type'', JStr ''string''),
                        (''description'', JStr ''Path where to save the image'')])]) \<and>
   getProp (getProp (Some downloadImageTool) ''inputSchema'') ''required'' =
     Some (JArr [JStr ''url'', JStr ''outputPath'']) \<and>
   getProp (Some optimizeImageTool) ''name'' = Some (JStr ''optimize_image'') \<and>
   getProp (Some optimizeImageTool) ''description'' =
     Some (JStr ''Create an optimized version of an image'') \<and>
   getProp (getProp (getProp (Some optimizeImageTool) ''inputSchema'') ''properties'')
       ''inputPath'' =
     Some (JObj [(''type'', JStr ''string''),
                 (''description'', JStr ''Path to the input image'')]) \<and>
   getProp (getProp (getProp (Some optimizeImageTool) ''inputSchema'') ''properties'')
       ''outputPath'' =
     Some (JObj [(''type'', JStr ''string''),
                 (''description'', JStr ''Path where to save the optimized image'')]) \<and>
   getProp (getProp (getProp (Some optimizeImageTool) ''inputSchema'') ''properties'')
       ''width'' =
     Some (JObj [(''type'', JStr ''number''),
                 (''description'',
                  JStr ''Target width (maintains aspect ratio if only width is specified)'')]) \<and>
   getProp (getProp (getProp (Some optimizeImageTool) ''inputSchema'') ''properties'')
       ''height'' =
     Some (JObj [(''type'', JStr ''number''),
                 (''description'',
                  JStr ''Target height (maintains aspect ratio if only height is specified)'')]) \<and>
   getProp (getProp (getProp (Some optimizeImageTool) ''inputSchema'') ''properties'')
       ''quality'' =
     Some (JObj [(''type'', JStr ''number''),
                 (''description'', JStr ''JPEG/WebP quality (1-100)''),
                 (''minimum'', JNum (Num 1)),
                 (''maximum'', JNum (Num 100))]) \<and>
   getProp (getProp (Some optimizeImageTool) ''inputSchema'') ''required'' =
     Some (JArr [JStr ''inputPath'', JStr ''outputPath''])"
  by (simp add: ListToolsHandler_def downloadImageTool_def optimizeImageTool_def
      strProp_def numProp_def)

theorem listing_is_fixed_witness:
  "ListToolsHandler () start =
     (JObj [(''tools'', JArr [downloadImageTool, optimizeImageTool])], start) \<and>
   fst (ListToolsHandler ()
          (snd (CallToolHandler (rec_env never)
                  \<lparr>name = ''download_image'',
                   arguments = Some (JObj [(''url'', JStr ''https://example.com/valid.png''),
                                           (''outputPath'', JStr ''./out/a.png'')])\<rparr> start))) =
     fst (ListToolsHandler () start)"
  using listing_is_fixed [of "()" start "()" start "()" start "rec_env never"
      "\<lparr>name = ''download_image'',
        arguments = Some (JObj [(''url'', JStr ''https://example.com/valid.png''),
                                (''outputPath'', JStr ''./out/a.png'')])\<rparr>"]
  by simp

end
